theory Spec2Isabelle
  imports Main "HOL-Library.Word"
begin

section \<open>The LoRaWAN example application (main.cpp)\<close>

text \<open>
  The application is a set of callbacks over a handful of global variables. The model
  passes the globals around as a record. The LoRaWAN stack and the event queue are
  libraries outside the application: every call made to them is appended to a log kept in
  the state, and every value they hand back is an input of the model. Diagnostic output
  (\<open>printf\<close>) is not part of the state; the reads of the buffers that it performs are.
\<close>

subsection \<open>Build-time configuration and library constants\<close>

text \<open>
  The macros \<open>MBED_CONF_LORA_DUTY_CYCLE_ON\<close> and \<open>MBED_CONF_LORA_APP_PORT\<close> come from
  the build configuration and the \<open>LORAWAN_STATUS_*\<close> codes from the stack's headers.
  The application file declares none of them, so they are parameters of the model.
\<close>

record config =
  MBED_CONF_LORA_DUTY_CYCLE_ON :: int
  MBED_CONF_LORA_APP_PORT :: nat
  LORAWAN_STATUS_OK :: int
  LORAWAN_STATUS_WOULD_BLOCK :: int
  LORAWAN_STATUS_CONNECT_IN_PROGRESS :: int

text \<open>One concrete configuration (duty cycle on, port 15, the status codes of Mbed OS).\<close>

definition mbed_os_config :: config where
  "mbed_os_config =
     \<lparr>MBED_CONF_LORA_DUTY_CYCLE_ON = 1, MBED_CONF_LORA_APP_PORT = 15,
      LORAWAN_STATUS_OK = 0, LORAWAN_STATUS_WOULD_BLOCK = - 1001,
      LORAWAN_STATUS_CONNECT_IN_PROGRESS = - 1016\<rparr>"

text \<open>The levels written to the two indicator pins.\<close>

definition ON :: int where [simp]: "ON = 1"
definition OFF :: int where [simp]: "OFF = 0"

subsection \<open>Calls into the libraries\<close>

datatype device_class = CLASS_A | CLASS_C

datatype msg_flag = MSG_UNCONFIRMED_FLAG

datatype lorawan_event =
    CONNECTED | DISCONNECTED | TX_DONE | TX_TIMEOUT | TX_ERROR | TX_CRYPTO_ERROR
  | TX_SCHEDULING_ERROR | RX_DONE | RX_TIMEOUT | RX_ERROR | JOIN_FAILURE
  | UPLINK_REQUIRED | CLASS_CHANGED | OTHER_EVENT

text \<open>
  A call of the stack, with its arguments: \<open>Send port payload flags\<close> carries the
  \<open>packet_len\<close> bytes read from the transmit buffer, \<open>Receive n\<close> the length offered.
\<close>

datatype stack_call =
    Initialize
  | Add_app_callbacks
  | Set_confirmed_msg_retries nat
  | Enable_adaptive_datarate
  | Connect
  | Set_device_class device_class
  | Send nat string msg_flag
  | Receive nat

text \<open>The only function ever handed to \<open>ev_queue.call_in\<close> is \<open>send_message\<close>.\<close>

datatype callback = send_message_cb

text \<open>What the stack answers to the calls made while one callback runs.\<close>

record stack_rets =
  receive_ret :: int
  receive_data :: string
  set_device_class_ret :: int
  send_ret :: int


subsection \<open>The globals\<close>

text \<open>
  \<open>is_class_c\<close> and \<open>receive_count\<close> are \<open>uint8_t\<close>; the two buffers are arrays of 30
  bytes, read by the code as C strings, so a byte is a \<open>char\<close>. \<open>stack_calls\<close> is the log
  of calls into the stack, \<open>timers\<close> the delayed calls pending on the event queue (delay
  in milliseconds), \<open>break_requested\<close> records \<open>ev_queue.break_dispatch()\<close>.
\<close>

record state =
  is_class_c :: "8 word"
  receive_count :: "8 word"
  green_led :: int
  blue_led :: int
  tx_buffer :: string
  rx_buffer :: string
  stack_calls :: "stack_call list"
  timers :: "(nat \<times> callback) list"
  break_requested :: bool

abbreviation NUL :: char where "NUL \<equiv> CHR 0x00"

abbreviation sizeof_buffer :: nat where "sizeof_buffer \<equiv> 30"

text \<open>
  The state before \<open>main\<close> runs: the initialisers of the globals, zeroed arrays, and
  both \<open>DigitalOut\<close> pins low (the one-argument constructor drives the pin to 0).
\<close>

definition initial_state :: state where
  "initial_state =
     \<lparr>is_class_c = 0, receive_count = 0, green_led = OFF, blue_led = OFF,
      tx_buffer = replicate sizeof_buffer NUL, rx_buffer = replicate sizeof_buffer NUL,
      stack_calls = [], timers = [], break_requested = False\<rparr>"

definition wf_state :: "state \<Rightarrow> bool" where
  "wf_state s \<longleftrightarrow> length (tx_buffer s) = sizeof_buffer \<and> length (rx_buffer s) = sizeof_buffer"

text \<open>
  Undefined behaviour of the C code is a fault: a write or read past the end of an array,
  and a conversion directive in the format string handed to \<open>sprintf\<close> (which would read
  arguments that were never passed).
\<close>

datatype fault = Buffer_overflow | Buffer_overread | Format_directive

subsection \<open>C strings\<close>

text \<open>\<open>store bytes buf\<close>: the array \<open>buf\<close> after \<open>bytes\<close> were written at its start.\<close>

definition store :: "string \<Rightarrow> string \<Rightarrow> string" where
  "store bytes buf = bytes @ drop (length bytes) buf"

text \<open>The characters of an array up to its first NUL: what \<open>c_str\<close>, \<open>%s\<close> and \<open>strcpy\<close> read.\<close>

definition c_str :: "string \<Rightarrow> string" where
  "c_str buf = takeWhile (\<lambda>c. c \<noteq> NUL) buf"

text \<open>
  \<open>strcmp\<close> on two arrays: the difference of the first pair of bytes that differ, 0 when
  both strings end together, and no result when an array ends before its terminator.
\<close>

fun strcmp :: "string \<Rightarrow> string \<Rightarrow> int option" where
  "strcmp (a # as) (b # bs) =
     (if a \<noteq> b then Some (of_char a - of_char b)
      else if a = NUL then Some 0
      else strcmp as bs)"
| "strcmp _ _ = None"

text \<open>
  \<open>printf("%s", buf)\<close> reads the array up to its first NUL, which has to lie in the array.
\<close>

definition printf_s :: "string \<Rightarrow> fault + string" where
  "printf_s buf = (if NUL \<in> set buf then Inr (c_str buf) else Inl Buffer_overread)"

text \<open>
  The characters that a format produces when no argument is passed: an ordinary character
  is copied, \<open>%%\<close> gives one \<open>%\<close>, and any other use of \<open>%\<close> is a directive without its
  argument.
\<close>

fun format_output :: "string \<Rightarrow> fault + string" where
  "format_output [] = Inr []"
| "format_output [c] = (if c = CHR ''%'' then Inl Format_directive else Inr [c])"
| "format_output (c # d # cs) =
     (if c = CHR ''%'' then
        (if d = CHR ''%'' then
           (case format_output cs of Inl f \<Rightarrow> Inl f | Inr out \<Rightarrow> Inr (CHR ''%'' # out))
         else Inl Format_directive)
      else
        (case format_output (d # cs) of Inl f \<Rightarrow> Inl f | Inr out \<Rightarrow> Inr (c # out)))"

text \<open>
  \<open>sprintf\<close> of a text produced by a format: the text and its terminator are written at the
  start of the buffer, and the number of characters is returned.
\<close>

definition sprintf :: "string \<Rightarrow> string \<Rightarrow> string \<times> nat" where
  "sprintf buf text = (store (text @ [NUL]) buf, length text)"

subsection \<open>Sending\<close>

definition send_message :: "config \<Rightarrow> stack_rets \<Rightarrow> state \<Rightarrow> state" where
  "send_message cfg r s =
     (if is_class_c s \<noteq> 0 then s
      else
        let (buf, packet_len) = sprintf (tx_buffer s) ''DataFromEndDevice'';
            s1 = s\<lparr>tx_buffer := buf\<rparr>;
            s2 = s1\<lparr>stack_calls := stack_calls s1 @
                   [Send (MBED_CONF_LORA_APP_PORT cfg) (take packet_len (tx_buffer s1))
                      MSG_UNCONFIRMED_FLAG]\<rparr>;
            retcode = send_ret r
        in if retcode < 0 then
             (if retcode = LORAWAN_STATUS_WOULD_BLOCK cfg then
                (if MBED_CONF_LORA_DUTY_CYCLE_ON cfg \<noteq> 0 \<and> is_class_c s2 = 0
                 then s2\<lparr>timers := timers s2 @ [(3000, send_message_cb)]\<rparr>
                 else s2)
              else s2)
           else s2\<lparr>tx_buffer := replicate sizeof_buffer NUL\<rparr>)"

text \<open>
  \<open>n\<close> is the length of the message cut to 8 bits; \<open>strcpy\<close> copies the C string of the
  message into \<open>string_arr[n + 1]\<close>, and \<open>sprintf\<close> uses that copy as its format.
\<close>

definition send_specific_message :: "config \<Rightarrow> stack_rets \<Rightarrow> string \<Rightarrow> state \<Rightarrow> fault + state" where
  "send_specific_message cfg r message s =
     (if is_class_c s \<noteq> 0 then Inr s
      else
        let n = (of_nat (length message) :: 8 word);
            string_arr = c_str message
        in if unat n + 1 < length string_arr + 1 then Inl Buffer_overflow
           else
             case format_output string_arr of
               Inl f \<Rightarrow> Inl f
             | Inr text \<Rightarrow>
                if sizeof_buffer < length text + 1 then Inl Buffer_overflow
                else
                  let (buf, packet_len) = sprintf (tx_buffer s) text;
                      s1 = s\<lparr>tx_buffer := buf\<rparr>;
                      s2 = s1\<lparr>stack_calls := stack_calls s1 @
                             [Send (MBED_CONF_LORA_APP_PORT cfg) (take packet_len (tx_buffer s1))
                                MSG_UNCONFIRMED_FLAG]\<rparr>;
                      retcode = send_ret r
                  in if retcode < 0 then
                       (let s3 = s2\<lparr>timers := timers s2 @ [(3000, send_message_cb)]\<rparr>
                        in if retcode = LORAWAN_STATUS_WOULD_BLOCK cfg then
                             (if MBED_CONF_LORA_DUTY_CYCLE_ON cfg \<noteq> 0 \<and> is_class_c s3 = 0
                              then Inr (s3\<lparr>timers := timers s3 @ [(3000, send_message_cb)]\<rparr>)
                              else Inr s3)
                           else Inr s3)
                     else Inr (s2\<lparr>tx_buffer := replicate sizeof_buffer NUL\<rparr>))"

subsection \<open>Switching the device class\<close>

text \<open>The return code of \<open>set_device_class\<close> only selects a diagnostic line.\<close>

definition switch_to_class_c :: "config \<Rightarrow> stack_rets \<Rightarrow> state \<Rightarrow> fault + state" where
  "switch_to_class_c cfg r s =
     (let s1 = s\<lparr>stack_calls := stack_calls s @ [Set_device_class CLASS_C]\<rparr>;
          s2 = s1\<lparr>blue_led := ON\<rparr>;
          s3 = s2\<lparr>green_led := OFF\<rparr>;
          s4 = s3\<lparr>is_class_c := 1\<rparr>
      in send_specific_message cfg r ''ClassCSwitch'' s4)"

definition switch_to_class_a :: "config \<Rightarrow> stack_rets \<Rightarrow> state \<Rightarrow> fault + state" where
  "switch_to_class_a cfg r s =
     (let s1 = s\<lparr>stack_calls := stack_calls s @ [Set_device_class CLASS_A]\<rparr>;
          s2 = s1\<lparr>blue_led := OFF\<rparr>;
          s3 = s2\<lparr>green_led := ON\<rparr>;
          s4 = s3\<lparr>is_class_c := 0\<rparr>
      in send_specific_message cfg r ''ClassAInit'' s4)"

subsection \<open>Receiving\<close>

text \<open>
  The loop that prints the received bytes: \<open>i\<close> is a \<open>uint8_t\<close> compared with the
  \<open>int16_t\<close> return code, and \<open>rx_buffer[i]\<close> is read at every round. The result is the
  list of bytes printed.
\<close>

function rx_dump :: "8 word \<Rightarrow> int \<Rightarrow> string \<Rightarrow> fault + string" where
  "rx_dump i retcode buf =
     (if uint i < retcode then
        (if unat i < sizeof_buffer then
           (case rx_dump (i + 1) retcode buf of
              Inl f \<Rightarrow> Inl f
            | Inr out \<Rightarrow> Inr (buf ! unat i # out))
         else Inl Buffer_overread)
      else Inr [])"
  by pat_completeness auto
termination
proof (relation "measure (\<lambda>(i, retcode, buf). sizeof_buffer - unat i)")
  show "wf (measure (\<lambda>(i :: 8 word, retcode :: int, buf :: string). sizeof_buffer - unat i))"
    by simp
next
  fix i :: "8 word" and retcode :: int and buf :: string
  assume "unat i < sizeof_buffer"
  moreover from this have "unat (i + 1) = unat i + 1"
    by (simp add: unat_word_ariths)
  ultimately show "((i + 1, retcode, buf), (i, retcode, buf))
      \<in> measure (\<lambda>(i, retcode, buf). sizeof_buffer - unat i)"
    by simp
qed

declare rx_dump.simps [simp del]

text \<open>
  The stack writes at most the offered \<open>sizeof(rx_buffer)\<close> bytes at the start of
  \<open>rx_buffer\<close>. The literal \<open>-1001\<close> is the source's. After the loop, \<open>rx_buffer\<close> is
  printed with \<open>%s\<close> and then compared with the two commands.
\<close>

definition receive_message :: "config \<Rightarrow> stack_rets \<Rightarrow> state \<Rightarrow> fault + state" where
  "receive_message cfg r s =
     (let s1 = s\<lparr>receive_count := receive_count s + 1\<rparr>;
          s2 = s1\<lparr>stack_calls := stack_calls s1 @ [Receive sizeof_buffer],
                  rx_buffer := store (take sizeof_buffer (receive_data r)) (rx_buffer s1)\<rparr>;
          retcode = receive_ret r
      in if retcode \<noteq> - 1001 \<and> retcode < 0 then Inr s2
         else
           case rx_dump 0 retcode (rx_buffer s2) of
             Inl f \<Rightarrow> Inl f
           | Inr printed \<Rightarrow>
              (case printf_s (rx_buffer s2) of
                 Inl f \<Rightarrow> Inl f
               | Inr shown \<Rightarrow>
                  (case strcmp (rx_buffer s2) (''ClassCSwitch'' @ [NUL]) of
                     None \<Rightarrow> Inl Buffer_overread
                   | Some c1 \<Rightarrow>
                      (case (if c1 = 0 then switch_to_class_c cfg r s2 else Inr s2) of
                         Inl f \<Rightarrow> Inl f
                       | Inr s3 \<Rightarrow>
                          (case strcmp (rx_buffer s3) (''ClassASwitch'' @ [NUL]) of
                             None \<Rightarrow> Inl Buffer_overread
                           | Some c2 \<Rightarrow>
                              (case (if c2 = 0 then switch_to_class_a cfg r s3 else Inr s3) of
                                 Inl f \<Rightarrow> Inl f
                               | Inr s4 \<Rightarrow>
                                   Inr (s4\<lparr>rx_buffer := replicate sizeof_buffer NUL\<rparr>)))))))"

text \<open>The text that \<open>receive_message\<close> finds in \<open>rx_buffer\<close> once the stack has filled it.\<close>

definition received_msg :: "stack_rets \<Rightarrow> state \<Rightarrow> string" where
  "received_msg r s = c_str (store (take sizeof_buffer (receive_data r)) (rx_buffer s))"

subsection \<open>The event handler\<close>

text \<open>
  \<open>MBED_ASSERT("Unknown Event")\<close> tests a string literal, which is never null: the
  default branch does nothing.
\<close>

fun lora_event_handler :: "config \<Rightarrow> stack_rets \<Rightarrow> lorawan_event \<Rightarrow> state \<Rightarrow> fault + state" where
  "lora_event_handler cfg r CONNECTED s =
     (if MBED_CONF_LORA_DUTY_CYCLE_ON cfg \<noteq> 0 then
        (if is_class_c s = 1 then send_specific_message cfg r ''ClassCInit'' s
         else send_specific_message cfg r ''ClassAInit'' s)
      else Inr s)"
| "lora_event_handler cfg r DISCONNECTED s = Inr (s\<lparr>break_requested := True\<rparr>)"
| "lora_event_handler cfg r TX_DONE s =
     (if MBED_CONF_LORA_DUTY_CYCLE_ON cfg \<noteq> 0 \<and> is_class_c s = 1 then Inr s
      else if MBED_CONF_LORA_DUTY_CYCLE_ON cfg \<noteq> 0 \<and> is_class_c s = 0
        then Inr (send_message cfg r s)
      else Inr s)"
| "lora_event_handler cfg r TX_TIMEOUT s = Inr s"
| "lora_event_handler cfg r TX_ERROR s = Inr s"
| "lora_event_handler cfg r TX_CRYPTO_ERROR s = Inr s"
| "lora_event_handler cfg r TX_SCHEDULING_ERROR s = Inr s"
| "lora_event_handler cfg r RX_DONE s = receive_message cfg r s"
| "lora_event_handler cfg r RX_TIMEOUT s = Inr s"
| "lora_event_handler cfg r RX_ERROR s = Inr s"
| "lora_event_handler cfg r JOIN_FAILURE s = Inr s"
| "lora_event_handler cfg r UPLINK_REQUIRED s = Inr s"
| "lora_event_handler cfg r CLASS_CHANGED s = Inr s"
| "lora_event_handler cfg r OTHER_EVENT s = Inr s"

subsection \<open>The event loop and \<open>main\<close>\<close>







subsection \<open>Notions used by the properties\<close>


text \<open>The state once the stack has answered the call of \<open>receive\<close>.\<close>

definition after_receive :: "stack_rets \<Rightarrow> state \<Rightarrow> state" where
  "after_receive r s =
     s\<lparr>receive_count := receive_count s + 1,
       stack_calls := stack_calls s @ [Receive sizeof_buffer],
       rx_buffer := store (take sizeof_buffer (receive_data r)) (rx_buffer s)\<rparr>"

text \<open>The receive buffer holds a NUL once the stack has written the downlink into it.\<close>

definition terminated :: "stack_rets \<Rightarrow> state \<Rightarrow> bool" where
  "terminated r s \<longleftrightarrow> NUL \<in> set (rx_buffer (after_receive r s))"







text \<open>The three announcements that the application hands to \<open>send_specific_message\<close>.\<close>

definition app_message :: "string \<Rightarrow> bool" where
  "app_message m \<longleftrightarrow> m = ''ClassCSwitch'' \<or> m = ''ClassAInit'' \<or> m = ''ClassCInit''"


section \<open>Auxiliary facts\<close>

subsection \<open>What the send operations leave alone\<close>


lemma store_length:
  "length bytes \<le> length buf \<Longrightarrow> length (store bytes buf) = length buf"
  by (simp add: store_def)




lemma send_specific_message_app:
  assumes "app_message m"
  shows "\<exists>s'. send_specific_message cfg r m s = Inr s'"
  using assms
  by (auto simp add: app_message_def send_specific_message_def sprintf_def Let_def c_str_def)

lemma switch_to_class_c_result:
  "switch_to_class_c cfg r s =
     Inr (s\<lparr>stack_calls := stack_calls s @ [Set_device_class CLASS_C],
            blue_led := ON, green_led := OFF, is_class_c := 1\<rparr>)"
  by (simp add: switch_to_class_c_def send_specific_message_def)

lemma switch_to_class_a_total: "\<exists>s'. switch_to_class_a cfg r s = Inr s'"
  by (simp add: switch_to_class_a_def app_message_def send_specific_message_app)



lemma rx_dump_total:
  "retcode \<le> int sizeof_buffer \<Longrightarrow> \<exists>out. rx_dump i retcode buf = Inr out"
proof (induction i retcode buf rule: rx_dump.induct)
  case (1 i retcode buf)
  show ?case
  proof (cases "uint i < retcode")
    case False
    then show ?thesis by (subst rx_dump.simps) simp
  next
    case True
    from True have "int (unat i) < retcode"
      unfolding uint_nat .
    with "1.prems" have small: "unat i < sizeof_buffer"
      by linarith
    from "1.IH" [OF True small "1.prems"] obtain out where "rx_dump (i + 1) retcode buf = Inr out"
      by blast
    with True small show ?thesis by (subst rx_dump.simps) simp
  qed
qed

lemma strcmp_total:
  "length lit < length buf \<Longrightarrow> \<exists>c. strcmp buf (lit @ [NUL]) = Some c"
proof (induction lit arbitrary: buf)
  case Nil
  then show ?case by (cases buf) auto
next
  case (Cons a lit)
  then show ?case by (cases buf) auto
qed

lemma of_char_zero: "(of_char a :: int) = 0 \<longleftrightarrow> a = NUL"
  using of_char_eq_iff [of a NUL, where ?'a = int] by simp

lemma strcmp_zero_c_str:
  "strcmp buf (lit @ [NUL]) = Some 0 \<Longrightarrow> NUL \<notin> set lit \<Longrightarrow> c_str buf = lit"
proof (induction lit arbitrary: buf)
  case Nil
  then show ?case by (cases buf) (auto simp: c_str_def of_char_zero split: if_splits)
next
  case (Cons a lit)
  then show ?case by (cases buf) (auto simp: c_str_def of_char_zero split: if_splits)
qed


lemma strcmp_c_str_zero:
  "c_str buf = lit \<Longrightarrow> length lit < length buf \<Longrightarrow> strcmp buf (lit @ [NUL]) = Some 0"
proof (induction buf arbitrary: lit)
  case Nil
  then show ?case by simp
next
  case (Cons a buf)
  show ?case
  proof (cases "a = NUL")
    case True
    with Cons.prems show ?thesis by (auto simp: c_str_def)
  next
    case False
    with Cons.prems obtain lit' where lit: "lit = a # lit'" and "c_str buf = lit'"
      by (auto simp: c_str_def)
    with Cons.prems Cons.IH [of lit'] False show ?thesis by simp
  qed
qed


lemma receive_message_unfold:
  "receive_message cfg r s =
     (if receive_ret r \<noteq> - 1001 \<and> receive_ret r < 0 then Inr (after_receive r s)
      else
        case rx_dump 0 (receive_ret r) (rx_buffer (after_receive r s)) of
          Inl f \<Rightarrow> Inl f
        | Inr printed \<Rightarrow>
           (case printf_s (rx_buffer (after_receive r s)) of
              Inl f \<Rightarrow> Inl f
            | Inr shown \<Rightarrow>
               (case strcmp (rx_buffer (after_receive r s)) (''ClassCSwitch'' @ [NUL]) of
                  None \<Rightarrow> Inl Buffer_overread
                | Some c1 \<Rightarrow>
                   (case (if c1 = 0 then switch_to_class_c cfg r (after_receive r s)
                          else Inr (after_receive r s)) of
                      Inl f \<Rightarrow> Inl f
                    | Inr s3 \<Rightarrow>
                       (case strcmp (rx_buffer s3) (''ClassASwitch'' @ [NUL]) of
                          None \<Rightarrow> Inl Buffer_overread
                        | Some c2 \<Rightarrow>
                           (case (if c2 = 0 then switch_to_class_a cfg r s3 else Inr s3) of
                              Inl f \<Rightarrow> Inl f
                            | Inr s4 \<Rightarrow>
                                Inr (s4\<lparr>rx_buffer := replicate sizeof_buffer NUL\<rparr>)))))))"
proof -
  have eq: "s\<lparr>receive_count := receive_count s + 1\<rparr>
      \<lparr>stack_calls := stack_calls (s\<lparr>receive_count := receive_count s + 1\<rparr>)
           @ [Receive sizeof_buffer],
       rx_buffer := store (take sizeof_buffer (receive_data r))
           (rx_buffer (s\<lparr>receive_count := receive_count s + 1\<rparr>))\<rparr>
    = after_receive r s"
    by (simp add: after_receive_def)
  show ?thesis
    unfolding receive_message_def Let_def eq by (rule refl)
qed

text \<open>
  When the stack reports no error and leaves no NUL in the receive buffer,
  \<open>receive_message\<close> reads past the buffer.
\<close>

lemma receive_message_overread:
  assumes "\<not> (receive_ret r \<noteq> - 1001 \<and> receive_ret r < 0)" and "\<not> terminated r s"
  shows "\<exists>f. receive_message cfg r s = Inl f"
proof -
  from assms(2) have "printf_s (rx_buffer (after_receive r s)) = Inl Buffer_overread"
    by (simp add: terminated_def printf_s_def)
  with assms(1) show ?thesis
    unfolding receive_message_unfold
    by (cases "rx_dump 0 (receive_ret r) (rx_buffer (after_receive r s))") simp_all
qed

lemma receive_message_cases:
  assumes wf: "wf_state s" and ret: "receive_ret r \<le> int sizeof_buffer"
    and nul: "terminated r s"
  obtains
    (error) "receive_ret r \<noteq> - 1001" and "receive_ret r < 0"
      and "receive_message cfg r s = Inr (after_receive r s)"
  | (to_c) "\<not> (receive_ret r \<noteq> - 1001 \<and> receive_ret r < 0)"
      and "received_msg r s = ''ClassCSwitch''"
      and "receive_message cfg r s =
             Inr ((after_receive r s)
                   \<lparr>stack_calls := stack_calls (after_receive r s) @ [Set_device_class CLASS_C],
                    blue_led := ON, green_led := OFF, is_class_c := 1,
                    rx_buffer := replicate sizeof_buffer NUL\<rparr>)"
  | (to_a) s' where "\<not> (receive_ret r \<noteq> - 1001 \<and> receive_ret r < 0)"
      and "received_msg r s = ''ClassASwitch''"
      and "switch_to_class_a cfg r (after_receive r s) = Inr s'"
      and "receive_message cfg r s = Inr (s'\<lparr>rx_buffer := replicate sizeof_buffer NUL\<rparr>)"
  | (other) "\<not> (receive_ret r \<noteq> - 1001 \<and> receive_ret r < 0)"
      and "received_msg r s \<noteq> ''ClassCSwitch''" and "received_msg r s \<noteq> ''ClassASwitch''"
      and "receive_message cfg r s =
             Inr ((after_receive r s)\<lparr>rx_buffer := replicate sizeof_buffer NUL\<rparr>)"
proof -
  define s2 where "s2 = after_receive r s"
  have buf: "rx_buffer s2 = store (take sizeof_buffer (receive_data r)) (rx_buffer s)"
    by (simp add: s2_def after_receive_def)
  have len: "length (rx_buffer s2) = sizeof_buffer"
    using wf by (simp add: buf wf_state_def store_length)
  have msg: "received_msg r s = c_str (rx_buffer s2)"
    by (simp add: received_msg_def buf)
  obtain out where dump: "rx_dump 0 (receive_ret r) (rx_buffer s2) = Inr out"
    using rx_dump_total [OF ret] by blast
  have shown: "printf_s (rx_buffer s2) = Inr (c_str (rx_buffer s2))"
    using nul by (simp add: printf_s_def terminated_def s2_def)
  obtain c1 where c1: "strcmp (rx_buffer s2) (''ClassCSwitch'' @ [NUL]) = Some c1"
    using strcmp_total [of "''ClassCSwitch''" "rx_buffer s2"] len by auto
  obtain c2 where c2: "strcmp (rx_buffer s2) (''ClassASwitch'' @ [NUL]) = Some c2"
    using strcmp_total [of "''ClassASwitch''" "rx_buffer s2"] len by auto
  have c1_iff: "c1 = 0 \<longleftrightarrow> received_msg r s = ''ClassCSwitch''"
    using c1 strcmp_zero_c_str [of "rx_buffer s2" "''ClassCSwitch''"]
      strcmp_c_str_zero [of "rx_buffer s2" "''ClassCSwitch''"] len
    by (auto simp: msg)
  have c2_iff: "c2 = 0 \<longleftrightarrow> received_msg r s = ''ClassASwitch''"
    using c2 strcmp_zero_c_str [of "rx_buffer s2" "''ClassASwitch''"]
      strcmp_c_str_zero [of "rx_buffer s2" "''ClassASwitch''"] len
    by (auto simp: msg)
  note unfold = receive_message_unfold
    [of cfg r s, folded s2_def, unfolded dump shown c1 sum.case option.case]
  show thesis
  proof (cases "receive_ret r \<noteq> - 1001 \<and> receive_ret r < 0")
    case True
    with unfold show thesis by (intro error) (simp_all add: s2_def)
  next
    case no_error: False
    note unfold = unfold [unfolded if_not_P [OF no_error]]
    show thesis
    proof (cases "c1 = 0")
      case True
      then have "c2 \<noteq> 0" using c1_iff c2_iff by auto
      with True no_error unfold c2 have
        "receive_message cfg r s =
           Inr (s2\<lparr>stack_calls := stack_calls s2 @ [Set_device_class CLASS_C],
                   blue_led := ON, green_led := OFF, is_class_c := 1,
                   rx_buffer := replicate sizeof_buffer NUL\<rparr>)"
        by (simp add: switch_to_class_c_result)
      with True no_error c1_iff show thesis by (intro to_c) (simp_all add: s2_def)
    next
      case not_c: False
      show thesis
      proof (cases "c2 = 0")
        case True
        obtain s' where s': "switch_to_class_a cfg r s2 = Inr s'"
          using switch_to_class_a_total by blast
        with True not_c no_error unfold c2 have
          "receive_message cfg r s = Inr (s'\<lparr>rx_buffer := replicate sizeof_buffer NUL\<rparr>)"
          by simp
        with True no_error c2_iff s' show thesis by (intro to_a [of s']) (simp_all add: s2_def)
      next
        case False
        with not_c no_error unfold c2 have
          "receive_message cfg r s = Inr (s2\<lparr>rx_buffer := replicate sizeof_buffer NUL\<rparr>)"
          by simp
        with False not_c no_error c1_iff c2_iff show thesis
          by (intro other) (simp_all add: s2_def)
      qed
    qed
  qed
qed

text \<open>
  A payload without NUL that leaves room for a terminator, written over a zeroed buffer, is
  read back as it is.
\<close>

lemma received_msg_plain:
  assumes "rx_buffer s = replicate sizeof_buffer NUL" and "length (receive_data r) < sizeof_buffer"
    and "NUL \<notin> set (receive_data r)"
  shows "received_msg r s = receive_data r"
proof -
  from assms(2) obtain k where k: "sizeof_buffer - length (receive_data r) = Suc k"
    by (cases "sizeof_buffer - length (receive_data r)") auto
  have "\<forall>c \<in> set (receive_data r). c \<noteq> NUL" using assms(3) by auto
  with assms(1,2) k show ?thesis
    by (simp add: received_msg_def store_def c_str_def takeWhile_append2)
qed


subsection \<open>Receiving keeps the state well formed\<close>






subsection \<open>The event loop\<close>

lemma switch_to_class_c_wf:
  "wf_state s \<Longrightarrow> switch_to_class_c cfg r s = Inr s' \<Longrightarrow> wf_state s'"
  by (auto simp add: switch_to_class_c_result wf_state_def)










text \<open>
  The CONNECTED event in class A makes one call of \<open>send\<close>, with \<open>ClassAInit\<close>; with duty
  cycling disabled it does nothing.
\<close>

lemma connected_in_class_a:
  assumes "MBED_CONF_LORA_DUTY_CYCLE_ON cfg \<noteq> 0" and "is_class_c s = 0"
  shows "\<exists>s'. lora_event_handler cfg r CONNECTED s = Inr s'
           \<and> stack_calls s' = stack_calls s @
                [Send (MBED_CONF_LORA_APP_PORT cfg) ''ClassAInit'' MSG_UNCONFIRMED_FLAG]"
  using assms
  by (simp add: send_specific_message_def sprintf_def store_def c_str_def Let_def)

lemma connected_without_duty_cycle:
  "MBED_CONF_LORA_DUTY_CYCLE_ON cfg = 0 \<Longrightarrow> lora_event_handler cfg r CONNECTED s = Inr s"
  by simp

subsection \<open>The indicators\<close>












section \<open>Properties\<close>

text \<open>
  C1. In every state whose mode flag is C (\<open>is_class_c\<close> non-zero), the periodic send and
  the tagged send both return at once: the state, which holds the log of the calls made
  to the stack, is returned as it was, so \<open>send\<close> is not called and nothing is modified.
\<close>

theorem sends_suppressed_in_class_c:
  assumes "is_class_c s \<noteq> 0"
  shows "send_message cfg r s = s \<and> send_specific_message cfg r message s = Inr s"
  using assms by (simp add: send_message_def send_specific_message_def)

theorem sends_suppressed_in_class_c_witness:
  "is_class_c (initial_state\<lparr>is_class_c := 1, blue_led := ON\<rparr>) \<noteq> 0
   \<and> send_message mbed_os_config
        \<lparr>receive_ret = 0, receive_data = [], set_device_class_ret = 0, send_ret = 17\<rparr>
        (initial_state\<lparr>is_class_c := 1, blue_led := ON\<rparr>)
       = initial_state\<lparr>is_class_c := 1, blue_led := ON\<rparr>
   \<and> send_specific_message mbed_os_config
        \<lparr>receive_ret = 0, receive_data = [], set_device_class_ret = 0, send_ret = 17\<rparr>
        ''ClassCInit'' (initial_state\<lparr>is_class_c := 1, blue_led := ON\<rparr>)
       = Inr (initial_state\<lparr>is_class_c := 1, blue_led := ON\<rparr>)"
  using sends_suppressed_in_class_c
    [of "initial_state\<lparr>is_class_c := 1, blue_led := ON\<rparr>" mbed_os_config
        "\<lparr>receive_ret = 0, receive_data = [], set_device_class_ret = 0, send_ret = 17\<rparr>"
        "''ClassCInit''"]
  by (simp add: initial_state_def)

text \<open>
  C2. The claim: in mode A, a downlink \<open>ClassCSwitch\<close> sets the mode flag to C, turns the
  blue indicator on and the green one off, and transmits exactly one tagged message
  \<open>ClassCSwitch\<close>. The code run on that input: the flag and the indicators change as
  claimed, but \<open>switch_to_class_c\<close> sets the flag before it calls
  \<open>send_specific_message\<close>, which then returns at its first test. The log of stack calls
  holds the \<open>receive\<close> and the \<open>set_device_class\<close> and no \<open>send\<close>.
\<close>

theorem class_c_switch_announcement_suppressed:
  "receive_message mbed_os_config
     \<lparr>receive_ret = 12, receive_data = ''ClassCSwitch'', set_device_class_ret = 0, send_ret = 12\<rparr>
     (initial_state\<lparr>green_led := ON\<rparr>)
   = Inr (initial_state
           \<lparr>is_class_c := 1, receive_count := 1, green_led := OFF, blue_led := ON,
            stack_calls := [Receive sizeof_buffer, Set_device_class CLASS_C]\<rparr>)"
  by code_simp




text \<open>
  C4. The claim: on CONNECTED with duty cycling enabled, exactly one announcement is
  transmitted, \<open>ClassCInit\<close> in mode C and \<open>ClassAInit\<close> in mode A. The code run on the
  CONNECTED event in mode C: the handler calls \<open>send_specific_message\<close> with \<open>ClassCInit\<close>,
  which returns at its first test, and the state comes back unchanged, with no \<open>send\<close> in
  the log of stack calls.
\<close>

theorem connected_in_class_c_sends_nothing:
  "lora_event_handler mbed_os_config
     \<lparr>receive_ret = 0, receive_data = [], set_device_class_ret = 0, send_ret = 10\<rparr>
     CONNECTED (initial_state\<lparr>is_class_c := 1, blue_led := ON\<rparr>)
   = Inr (initial_state\<lparr>is_class_c := 1, blue_led := ON\<rparr>)"
  by code_simp

text \<open>
  C5. When the text that the downlink leaves in the receive buffer (the bytes up to the
  first NUL) is neither \<open>ClassCSwitch\<close> nor \<open>ClassASwitch\<close>, \<open>receive_message\<close> returns
  with the mode flag unchanged. The buffers have their 30 bytes, the stack reports at most
  the 30 bytes it was offered, and the receive buffer holds a NUL after the stack's write
  (without one, printing the buffer reads past it).
\<close>

theorem unrecognised_payload_keeps_mode:
  assumes "wf_state s" and "receive_ret r \<le> int sizeof_buffer" and "terminated r s"
    and "received_msg r s \<noteq> ''ClassCSwitch''" and "received_msg r s \<noteq> ''ClassASwitch''"
  shows "\<exists>s'. receive_message cfg r s = Inr s' \<and> is_class_c s' = is_class_c s"
  using assms(1,2,3)
proof (cases rule: receive_message_cases [where cfg = cfg])
  case error
  then show ?thesis by (simp add: after_receive_def)
next
  case to_c
  with assms show ?thesis by simp
next
  case (to_a s')
  with assms show ?thesis by simp
next
  case other
  then show ?thesis by (simp add: after_receive_def)
qed

theorem unrecognised_payload_keeps_mode_witness:
  "wf_state (initial_state\<lparr>is_class_c := 1, blue_led := ON\<rparr>)
   \<and> 12 \<le> int sizeof_buffer
   \<and> terminated
       \<lparr>receive_ret = 12, receive_data = ''classaswitch'', set_device_class_ret = 0, send_ret = 0\<rparr>
       (initial_state\<lparr>is_class_c := 1, blue_led := ON\<rparr>)
   \<and> received_msg
       \<lparr>receive_ret = 12, receive_data = ''classaswitch'', set_device_class_ret = 0, send_ret = 0\<rparr>
       (initial_state\<lparr>is_class_c := 1, blue_led := ON\<rparr>) = ''classaswitch''
   \<and> (\<exists>s'. receive_message mbed_os_config
         \<lparr>receive_ret = 12, receive_data = ''classaswitch'', set_device_class_ret = 0, send_ret = 0\<rparr>
         (initial_state\<lparr>is_class_c := 1, blue_led := ON\<rparr>) = Inr s'
        \<and> is_class_c s' = 1)"
proof -
  let ?r = "\<lparr>receive_ret = 12, receive_data = ''classaswitch'', set_device_class_ret = 0,
            send_ret = 0\<rparr>"
  let ?s = "initial_state\<lparr>is_class_c := 1, blue_led := ON\<rparr>"
  have wf: "wf_state ?s" by (simp add: wf_state_def initial_state_def)
  have ret: "receive_ret ?r \<le> int sizeof_buffer" by simp
  have nul: "terminated ?r ?s" by code_simp
  have msg: "received_msg ?r ?s = ''classaswitch''" by code_simp
  have mode: "is_class_c ?s = 1" by (simp add: initial_state_def)
  from unrecognised_payload_keeps_mode [OF wf ret nul, of mbed_os_config] msg
  have "\<exists>s'. receive_message mbed_os_config ?r ?s = Inr s' \<and> is_class_c s' = 1"
    by (simp add: mode)
  with wf nul msg show ?thesis by simp
qed













end
